theory Spec2Isabelle
  imports Main "HOL-Library.AList"
begin

section \<open>Python values and exceptions\<close>

text \<open>
  The values that reach the processor are the ones \<^verbatim>\<open>json.load\<close> produces: None,
  booleans, integers, floats, strings, lists and string-keyed dictionaries. A dictionary
  is an association list in insertion order; storing under an existing key replaces the
  value in place, as \<^const>\<open>AList.update\<close> does. Text is 8-bit (\<^typ>\<open>string\<close>).
  A float is carried as the literal that denotes it: no floating-point arithmetic is
  modelled, and neither are the interpreter's resource limits (recursion depth, memory).
\<close>

datatype pyval =
    VNone
  | VBool bool
  | VInt int
  | VFloat string
  | VStr string
  | VList "pyval list"
  | VDict "(string \<times> pyval) list"

datatype exc = JSONDecodeError | TypeError | ValueError | IndexError

section \<open>The decoder \<^verbatim>\<open>json.loads\<close>\<close>

text \<open>
  \<^verbatim>\<open>json.loads\<close> belongs to the Python standard library, not to the repository. The
  model follows its scanner: optional whitespace, one value, optional whitespace, end of
  text. A value is a string literal, an object, an array, \<^verbatim>\<open>null\<close>, \<^verbatim>\<open>true\<close>,
  \<^verbatim>\<open>false\<close>, a number, or one of \<^verbatim>\<open>NaN\<close>, \<^verbatim>\<open>Infinity\<close>, \<^verbatim>\<open>-Infinity\<close>,
  tried in that order. Anything else is a \<^verbatim>\<open>JSONDecodeError\<close>; an argument that is
  not text is a \<^verbatim>\<open>TypeError\<close>.
\<close>

definition is_ws :: "char \<Rightarrow> bool" where
  "is_ws c = (c = CHR '' '' \<or> c = CHR 0x09 \<or> c = CHR 0x0A \<or> c = CHR 0x0D)"

definition skip_ws :: "string \<Rightarrow> string" where
  "skip_ws s = dropWhile is_ws s"

definition is_digit :: "char \<Rightarrow> bool" where
  "is_digit c = (c \<in> set ''0123456789'')"

definition int_of_digits :: "string \<Rightarrow> int" where
  "int_of_digits ds = foldl (\<lambda>n c. 10 * n + (of_char c - 48)) 0 ds"

definition is_hex :: "char \<Rightarrow> bool" where
  "is_hex c = (c \<in> set ''0123456789abcdefABCDEF'')"

definition hex_val :: "char \<Rightarrow> nat" where
  "hex_val c =
     (if is_digit c then of_char c - 48
      else if c \<in> set ''abcdef'' then of_char c - 87
      else of_char c - 55)"

definition strip_prefix :: "string \<Rightarrow> string \<Rightarrow> string option" where
  "strip_prefix p s = (if take (length p) s = p then Some (drop (length p) s) else None)"

text \<open>
  The exponent of a number, \<^verbatim>\<open>[eE][-+]?[0-9]+\<close>: the matched text, empty when the
  group does not match.
\<close>

definition match_exp :: "string \<Rightarrow> string" where
  "match_exp s =
     (case s of
        [] \<Rightarrow> []
      | c # r \<Rightarrow>
          if c = CHR ''e'' \<or> c = CHR ''E'' then
            (let sg = (case r of
                         [] \<Rightarrow> []
                       | d # _ \<Rightarrow> if d = CHR ''+'' \<or> d = CHR ''-'' then [d] else []);
                 ds = takeWhile is_digit (drop (length sg) r)
             in if ds = [] then [] else c # sg @ ds)
          else [])"

text \<open>The fraction of a number, \<^verbatim>\<open>\.[0-9]+\<close>.\<close>

definition match_frac :: "string \<Rightarrow> string" where
  "match_frac s =
     (case s of
        [] \<Rightarrow> []
      | c # r \<Rightarrow>
          if c = CHR ''.'' \<and> takeWhile is_digit r \<noteq> [] then c # takeWhile is_digit r
          else [])"

text \<open>
  The integer part, \<^verbatim>\<open>-?(?:0|[1-9][0-9]*)\<close>, split into sign and digits; the digits
  are empty when there is no match.
\<close>

definition match_int :: "string \<Rightarrow> string \<times> string" where
  "match_int s =
     (let sg = (case s of [] \<Rightarrow> [] | c # _ \<Rightarrow> if c = CHR ''-'' then [c] else []);
          r = drop (length sg) s
      in (sg, case r of
                [] \<Rightarrow> []
              | c # _ \<Rightarrow> if c = CHR ''0'' then [c] else takeWhile is_digit r))"

definition match_number :: "string \<Rightarrow> (pyval \<times> string) option" where
  "match_number s =
     (let (sg, ds) = match_int s
      in if ds = [] then None
         else
           (let s1 = drop (length sg + length ds) s;
                frac = match_frac s1;
                s2 = drop (length frac) s1;
                ex = match_exp s2;
                s3 = drop (length ex) s2
            in if frac = [] \<and> ex = []
               then Some (VInt (if sg = [] then int_of_digits ds else - int_of_digits ds), s3)
               else Some (VFloat (sg @ ds @ frac @ ex), s3)))"

text \<open>
  The single-character escapes of a string literal. A \<^verbatim>\<open>\uXXXX\<close> escape is read as
  the character of that code in the 8-bit text of this model.
\<close>

definition escape_char :: "char \<Rightarrow> char option" where
  "escape_char e =
     (if e = CHR 0x22 then Some (CHR 0x22)
      else if e = CHR 0x5C then Some (CHR 0x5C)
      else if e = CHR ''/'' then Some (CHR ''/'')
      else if e = CHR ''b'' then Some (CHR 0x08)
      else if e = CHR ''f'' then Some (CHR 0x0C)
      else if e = CHR ''n'' then Some (CHR 0x0A)
      else if e = CHR ''r'' then Some (CHR 0x0D)
      else if e = CHR ''t'' then Some (CHR 0x09)
      else None)"

text \<open>
  The body of a string literal, after its opening quote: the decoded text and what follows
  the closing quote. Control characters are refused (strict mode).
\<close>

fun scanstring :: "string \<Rightarrow> (string \<times> string) option" where
  "scanstring [] = None"
| "scanstring (c # cs) =
     (if c = CHR 0x22 then Some ([], cs)
      else if c = CHR 0x5C then
        (case cs of
           [] \<Rightarrow> None
         | e # r \<Rightarrow>
             if e = CHR ''u'' then
               (case r of
                  a # b # x # d # r' \<Rightarrow>
                    if is_hex a \<and> is_hex b \<and> is_hex x \<and> is_hex d then
                      (case scanstring r' of
                         None \<Rightarrow> None
                       | Some (str, rest) \<Rightarrow>
                           Some (char_of (((hex_val a * 16 + hex_val b) * 16 + hex_val x) * 16
                                   + hex_val d) # str, rest))
                    else None
                | _ \<Rightarrow> None)
             else
               (case escape_char e of
                  None \<Rightarrow> None
                | Some ch \<Rightarrow>
                    (case scanstring r of
                       None \<Rightarrow> None
                     | Some (str, rest) \<Rightarrow> Some (ch # str, rest))))
      else if (of_char c :: nat) < 32 then None
      else
        (case scanstring cs of
           None \<Rightarrow> None
         | Some (str, rest) \<Rightarrow> Some (c # str, rest)))"

text \<open>The constants and numbers, in the scanner's order.\<close>

definition parse_atom :: "string \<Rightarrow> (pyval \<times> string) option" where
  "parse_atom s =
     (case strip_prefix ''null'' s of Some r \<Rightarrow> Some (VNone, r) | None \<Rightarrow>
      case strip_prefix ''true'' s of Some r \<Rightarrow> Some (VBool True, r) | None \<Rightarrow>
      case strip_prefix ''false'' s of Some r \<Rightarrow> Some (VBool False, r) | None \<Rightarrow>
      case match_number s of Some res \<Rightarrow> Some res | None \<Rightarrow>
      case strip_prefix ''NaN'' s of Some r \<Rightarrow> Some (VFloat ''NaN'', r) | None \<Rightarrow>
      case strip_prefix ''Infinity'' s of Some r \<Rightarrow> Some (VFloat ''Infinity'', r) | None \<Rightarrow>
      case strip_prefix ''-Infinity'' s of Some r \<Rightarrow> Some (VFloat ''-Infinity'', r) | None \<Rightarrow>
      None)"

lemma scanstring_shorter: "scanstring cs = Some (str, r) \<Longrightarrow> length r < length cs"
proof (induction "length cs" arbitrary: cs str r rule: less_induct)
  case less
  show ?case
  proof (cases cs)
    case Nil
    with less.prems show ?thesis by simp
  next
    case (Cons c cs')
    have IH: "\<And>t str' r'. length t < length cs \<Longrightarrow> scanstring t = Some (str', r') \<Longrightarrow> length r' < length t"
      using less.hyps by blast
    from less.prems Cons show ?thesis
      by (auto split: if_splits list.splits option.splits dest!: IH [rotated])
  qed
qed

lemma skip_ws_length: "length (skip_ws s) \<le> length s"
  by (simp add: skip_ws_def length_dropWhile_le)

lemma skip_ws_Cons_length: "skip_ws r = d # r' \<Longrightarrow> length r' < length r"
  using skip_ws_length [of r] by simp

text \<open>
  The recursive descent over values, array elements and object members. After a nested
  value the remaining text must be shorter than before; this test only serves the
  termination proof, and \<open>parse_value_shorter\<close> below shows that it always holds.
  An object is built by storing its members in order, so a repeated name keeps its first
  position and its last value.
\<close>

function parse_value :: "string \<Rightarrow> (pyval \<times> string) option"
  and parse_array :: "string \<Rightarrow> pyval list \<Rightarrow> (pyval \<times> string) option"
  and parse_object :: "string \<Rightarrow> (string \<times> pyval) list \<Rightarrow> (pyval \<times> string) option"
where
  "parse_value s =
     (case s of
        [] \<Rightarrow> None
      | c # cs \<Rightarrow>
          if c = CHR 0x22 then
            (case scanstring cs of
               None \<Rightarrow> None
             | Some (str, r) \<Rightarrow> Some (VStr str, r))
          else if c = CHR ''{'' then
            (case skip_ws cs of
               [] \<Rightarrow> None
             | d # r \<Rightarrow>
                 if d = CHR ''}'' then Some (VDict [], r)
                 else parse_object (skip_ws cs) [])
          else if c = CHR ''['' then
            (case skip_ws cs of
               [] \<Rightarrow> None
             | d # r \<Rightarrow>
                 if d = CHR '']'' then Some (VList [], r)
                 else parse_array (skip_ws cs) [])
          else parse_atom s)"
| "parse_array s acc =
     (case parse_value s of
        None \<Rightarrow> None
      | Some (v, r) \<Rightarrow>
          if length r < length s then
            (case skip_ws r of
               [] \<Rightarrow> None
             | d # r' \<Rightarrow>
                 if d = CHR '']'' then Some (VList (acc @ [v]), r')
                 else if d = CHR '','' then parse_array (skip_ws r') (acc @ [v])
                 else None)
          else None)"
| "parse_object s acc =
     (case s of
        [] \<Rightarrow> None
      | q # ks \<Rightarrow>
          if q = CHR 0x22 then
            (case scanstring ks of
               None \<Rightarrow> None
             | Some (key, r1) \<Rightarrow>
                 (case skip_ws r1 of
                    [] \<Rightarrow> None
                  | col # r2 \<Rightarrow>
                      if col = CHR '':'' then
                        (case parse_value (skip_ws r2) of
                           None \<Rightarrow> None
                         | Some (v, r3) \<Rightarrow>
                             if length r3 < length s then
                               (case skip_ws r3 of
                                  [] \<Rightarrow> None
                                | d # r4 \<Rightarrow>
                                    if d = CHR ''}'' then Some (VDict (AList.update key v acc), r4)
                                    else if d = CHR '','' then
                                      parse_object (skip_ws r4) (AList.update key v acc)
                                    else None)
                             else None)
                      else None))
          else None)"
  by pat_completeness auto

termination
proof (relation "measure (\<lambda>x. case x of
          Inl s \<Rightarrow> 2 * length s
        | Inr (Inl (s, acc)) \<Rightarrow> 2 * length s + 1
        | Inr (Inr (s, acc)) \<Rightarrow> 2 * length s + 1)", goal_cases)
  case 1
  show ?case by simp
next
  case (2 s c cs d r)
  then show ?case using skip_ws_length [of cs] by simp
next
  case (3 s c cs d r)
  then show ?case using skip_ws_length [of cs] by simp
next
  case (4 s acc)
  then show ?case by simp
next
  case (5 s acc x v r d r')
  then show ?case
    using skip_ws_length [of r'] skip_ws_Cons_length [of r d r'] by simp
next
  case (6 s acc q ks x key r1 col r2)
  then show ?case
    using scanstring_shorter [of ks key r1] skip_ws_Cons_length [of r1 col r2]
      skip_ws_length [of r2] by simp
next
  case (7 s acc q ks x key r1 col r2 y v r3 d r4)
  then show ?case
    using skip_ws_length [of r4] skip_ws_Cons_length [of r3 d r4] by simp
qed

definition json_parse :: "string \<Rightarrow> pyval option" where
  "json_parse s =
     (case parse_value (skip_ws s) of
        None \<Rightarrow> None
      | Some (v, r) \<Rightarrow> if skip_ws r = [] then Some v else None)"


declare parse_value.simps [simp del] parse_array.simps [simp del] parse_object.simps [simp del]












definition json_loads :: "pyval \<Rightarrow> exc + pyval" where
  "json_loads v =
     (case v of
        VStr s \<Rightarrow> (case json_parse s of None \<Rightarrow> Inl JSONDecodeError | Some r \<Rightarrow> Inr r)
      | _ \<Rightarrow> Inl TypeError)"

section \<open>Dictionaries\<close>

text \<open>
  \<^verbatim>\<open>d.get(k)\<close> on a string-keyed dictionary: the stored value, None when the key is
  missing. \<^verbatim>\<open>d.update(e)\<close> and \<^verbatim>\<open>dict(pairs)\<close> store the pairs from left to right.
\<close>

definition dict_get :: "(string \<times> pyval) list \<Rightarrow> string \<Rightarrow> pyval" where
  "dict_get d k = (case map_of d k of None \<Rightarrow> VNone | Some v \<Rightarrow> v)"

definition dict_update :: "('k \<times> 'v) list \<Rightarrow> ('k \<times> 'v) list \<Rightarrow> ('k \<times> 'v) list" where
  "dict_update d e = foldl (\<lambda>acc (k, v). AList.update k v acc) d e"

definition dict_of_pairs :: "('k \<times> 'v) list \<Rightarrow> ('k \<times> 'v) list" where
  "dict_of_pairs ps = dict_update [] ps"

text \<open>
  Keys of the row indexes are arbitrary values. Lists and dictionaries are unhashable:
  using one as a key, also in \<^verbatim>\<open>get\<close>, raises \<^verbatim>\<open>TypeError\<close>. Python compares keys
  with \<^verbatim>\<open>==\<close>, under which \<^verbatim>\<open>True\<close> is \<^verbatim>\<open>1\<close> and \<^verbatim>\<open>False\<close> is \<^verbatim>\<open>0\<close>;
  \<open>key_of\<close> picks the integer as the stored representative. Floats compare by their
  literal here.
\<close>

fun hashable :: "pyval \<Rightarrow> bool" where
  "hashable (VList _) = False"
| "hashable (VDict _) = False"
| "hashable _ = True"

fun key_of :: "pyval \<Rightarrow> pyval" where
  "key_of (VBool b) = VInt (if b then 1 else 0)"
| "key_of v = v"

definition index_setitem :: "(pyval \<times> 'r) list \<Rightarrow> pyval \<Rightarrow> 'r \<Rightarrow> exc + (pyval \<times> 'r) list" where
  "index_setitem idx k r = (if hashable k then Inr (AList.update (key_of k) r idx) else Inl TypeError)"

definition index_get :: "(pyval \<times> 'r) list \<Rightarrow> pyval \<Rightarrow> exc + 'r option" where
  "index_get idx k = (if hashable k then Inr (map_of idx (key_of k)) else Inl TypeError)"

section \<open>Rows\<close>

text \<open>
  One element of a \<^verbatim>\<open>change\<close> list, as \<^verbatim>\<open>WALRow.from_dict\<close> reads it. Column names
  are strings; everything else is passed through as it comes.
\<close>

record change_record =
  cr_kind :: pyval
  cr_schema :: pyval
  cr_table :: pyval
  columnnames :: "string list"
  columntypes :: "pyval list"
  columnvalues :: "pyval list"

record WALRow =
  kind :: pyval
  schema :: pyval
  table :: pyval
  column_names :: "string list"
  column_types :: "pyval list"
  column_values :: "pyval list"
  column_names_values :: "(string \<times> pyval) list"

text \<open>
  \<^verbatim>\<open>transform_to_dict_if_json\<close>: the \<^verbatim>\<open>try\<close> around \<^verbatim>\<open>json.loads\<close> catches
  \<^verbatim>\<open>JSONDecodeError\<close> and \<^verbatim>\<open>TypeError\<close> and keeps the value; any other exception
  would pass through.
\<close>

definition transform_to_dict_if_json :: "pyval \<Rightarrow> exc + pyval" where
  "transform_to_dict_if_json v =
     (case json_loads v of
        Inr r \<Rightarrow> Inr r
      | Inl e \<Rightarrow> if e = JSONDecodeError \<or> e = TypeError then Inr v else Inl e)"

text \<open>A list comprehension whose body may raise: the first exception ends it.\<close>

fun map_exc :: "('a \<Rightarrow> exc + 'b) \<Rightarrow> 'a list \<Rightarrow> exc + 'b list" where
  "map_exc f [] = Inr []"
| "map_exc f (x # xs) =
     (case f x of
        Inl e \<Rightarrow> Inl e
      | Inr y \<Rightarrow> (case map_exc f xs of Inl e \<Rightarrow> Inl e | Inr ys \<Rightarrow> Inr (y # ys)))"

text \<open>
  \<^verbatim>\<open>WALRow.from_dict\<close>: every column value is decoded, then \<^verbatim>\<open>zip\<close> pairs names and
  decoded values up to the shorter of the two, and \<^verbatim>\<open>dict\<close> stores the pairs.
\<close>

definition from_dict :: "change_record \<Rightarrow> exc + WALRow" where
  "from_dict data =
     (case map_exc transform_to_dict_if_json (columnvalues data) of
        Inl e \<Rightarrow> Inl e
      | Inr vs \<Rightarrow>
          Inr \<lparr>kind = cr_kind data, schema = cr_schema data, table = cr_table data,
               column_names = columnnames data, column_types = columntypes data,
               column_values = columnvalues data,
               column_names_values = dict_of_pairs (zip (columnnames data) vs)\<rparr>)"

text \<open>\<^verbatim>\<open>key.split(".")[-1]\<close>: the text after the last dot.\<close>

fun split_on :: "char \<Rightarrow> string \<Rightarrow> string list" where
  "split_on sep [] = [[]]"
| "split_on sep (c # cs) =
     (if c = sep then [] # split_on sep cs
      else (case split_on sep cs of [] \<Rightarrow> [[c]] | x # xs \<Rightarrow> (c # x) # xs))"

definition last_segment :: "string \<Rightarrow> string" where
  "last_segment key = last (split_on (CHR ''.'') key)"

text \<open>
  The dictionary comprehension shared by the four \<^verbatim>\<open>get_insertable_values\<close>: for
  each source column in turn, the output field named by its last segment receives
  \<^verbatim>\<open>column_names_values.get(key)\<close>.
\<close>

definition insertable_values :: "string list \<Rightarrow> WALRow \<Rightarrow> (string \<times> pyval) list" where
  "insertable_values keys r =
     foldl (\<lambda>d key. AList.update (last_segment key) (dict_get (column_names_values r) key) d)
       [] keys"

definition EventV2DataRow_get_insertable_values :: "WALRow \<Rightarrow> (string \<times> pyval) list" where
  "EventV2DataRow_get_insertable_values =
     insertable_values
       [''event_id'', ''flow_id'', ''created_at'', ''transaction_lifecycle_event'',
        ''error_details.decline_reason'', ''error_details.decline_type'']"

definition TransactionsRow_get_insertable_values :: "WALRow \<Rightarrow> (string \<times> pyval) list" where
  "TransactionsRow_get_insertable_values =
     insertable_values
       [''transaction_id'', ''transaction_type'', ''created_at'', ''amount'',
        ''currency_code'', ''processor_merchant_account_id'']"

definition TransactionRequestsRow_get_insertable_values :: "WALRow \<Rightarrow> (string \<times> pyval) list" where
  "TransactionRequestsRow_get_insertable_values =
     insertable_values [''vault_options.payment_method'']"

definition PaymentInstrumentTokenDataRow_get_insertable_values ::
  "WALRow \<Rightarrow> (string \<times> pyval) list" where
  "PaymentInstrumentTokenDataRow_get_insertable_values =
     insertable_values
       [''three_d_secure_authentication'', ''payment_instrument_type'',
        ''vault_data.customer_id'']"

text \<open>
  \<^verbatim>\<open>list.index\<close> gives the first position of an element and raises \<^verbatim>\<open>ValueError\<close>
  when there is none; indexing \<^verbatim>\<open>column_values\<close> beyond its end raises
  \<^verbatim>\<open>IndexError\<close>. The three \<^verbatim>\<open>get_join_key\<close> differ in the column only.
\<close>

fun list_index :: "'a list \<Rightarrow> 'a \<Rightarrow> nat option" where
  "list_index [] x = None"
| "list_index (y # ys) x = (if y = x then Some 0 else map_option Suc (list_index ys x))"

definition get_join_key :: "string \<Rightarrow> WALRow \<Rightarrow> exc + pyval" where
  "get_join_key col r =
     (case list_index (column_names r) col of
        None \<Rightarrow> Inl ValueError
      | Some value_index \<Rightarrow>
          if value_index < length (column_values r) then Inr (column_values r ! value_index)
          else Inl IndexError)"

definition TransactionsRow_get_join_key :: "WALRow \<Rightarrow> exc + pyval" where
  "TransactionsRow_get_join_key = get_join_key ''transaction_id''"

definition TransactionRequestsRow_get_join_key :: "WALRow \<Rightarrow> exc + pyval" where
  "TransactionRequestsRow_get_join_key = get_join_key ''flow_id''"

definition PaymentInstrumentTokenDataRow_get_join_key :: "WALRow \<Rightarrow> exc + pyval" where
  "PaymentInstrumentTokenDataRow_get_join_key = get_join_key ''token_id''"

section \<open>The destination row\<close>

record InsertableRow =
  event_id :: pyval
  flow_id :: pyval
  created_at :: pyval
  transaction_lifecycle_event :: pyval
  decline_reason :: pyval
  decline_type :: pyval
  payment_method :: pyval
  transaction_id :: pyval
  transaction_type :: pyval
  amount :: pyval
  currency_code :: pyval
  processor_merchant_account_id :: pyval
  three_d_secure_authentication :: pyval
  payment_instrument_type :: pyval
  customer_id :: pyval

definition InsertableRow_fields :: "string list" where
  "InsertableRow_fields =
     [''event_id'', ''flow_id'', ''created_at'', ''transaction_lifecycle_event'',
      ''decline_reason'', ''decline_type'', ''payment_method'', ''transaction_id'',
      ''transaction_type'', ''amount'', ''currency_code'', ''processor_merchant_account_id'',
      ''three_d_secure_authentication'', ''payment_instrument_type'', ''customer_id'']"

text \<open>
  \<^verbatim>\<open>InsertableRow(**merged_row)\<close>: a keyword that is no field raises \<^verbatim>\<open>TypeError\<close>;
  a field without keyword keeps its default None.
\<close>

definition InsertableRow_init :: "(string \<times> pyval) list \<Rightarrow> exc + InsertableRow" where
  "InsertableRow_init kw =
     (if list_all (\<lambda>k. k \<in> set InsertableRow_fields) (map fst kw) then
        Inr \<lparr>event_id = dict_get kw ''event_id'',
             flow_id = dict_get kw ''flow_id'',
             created_at = dict_get kw ''created_at'',
             transaction_lifecycle_event = dict_get kw ''transaction_lifecycle_event'',
             decline_reason = dict_get kw ''decline_reason'',
             decline_type = dict_get kw ''decline_type'',
             payment_method = dict_get kw ''payment_method'',
             transaction_id = dict_get kw ''transaction_id'',
             transaction_type = dict_get kw ''transaction_type'',
             amount = dict_get kw ''amount'',
             currency_code = dict_get kw ''currency_code'',
             processor_merchant_account_id = dict_get kw ''processor_merchant_account_id'',
             three_d_secure_authentication = dict_get kw ''three_d_secure_authentication'',
             payment_instrument_type = dict_get kw ''payment_instrument_type'',
             customer_id = dict_get kw ''customer_id''\<rparr>
      else Inl TypeError)"

section \<open>The processor\<close>

text \<open>
  The state of a \<^verbatim>\<open>WalRecordsProcessor\<close>: the event rows, the three row indexes and the
  rows built so far. \<open>warnings\<close> holds the table names the logger was warned about.
\<close>

record WalRecordsProcessor =
  event_v2_data_rows :: "WALRow list"
  transaction_rows :: "(pyval \<times> WALRow) list"
  transaction_request_rows :: "(pyval \<times> WALRow) list"
  payment_instrument_token_data_rows :: "(pyval \<times> WALRow) list"
  insertable_rows :: "InsertableRow list"
  warnings :: "pyval list"

definition new_processor :: WalRecordsProcessor where
  "new_processor =
     \<lparr>event_v2_data_rows = [], transaction_rows = [], transaction_request_rows = [],
      payment_instrument_token_data_rows = [], insertable_rows = [], warnings = []\<rparr>"

text \<open>
  The parse of a record of an indexed table followed by the store under its join key:
  \<^verbatim>\<open>rows[row.get_join_key()] = row\<close>.
\<close>

definition index_record ::
  "(WALRow \<Rightarrow> exc + pyval) \<Rightarrow> (pyval \<times> WALRow) list \<Rightarrow> change_record
     \<Rightarrow> exc + (pyval \<times> WALRow) list" where
  "index_record join_key idx row =
     (case from_dict row of
        Inl e \<Rightarrow> Inl e
      | Inr r \<Rightarrow>
          (case join_key r of
             Inl e \<Rightarrow> Inl e
           | Inr k \<Rightarrow> index_setitem idx k r))"

text \<open>
  One turn of the loop of \<^verbatim>\<open>load\<close> on an element of the file, given by its
  \<^verbatim>\<open>change\<close> list: \<^verbatim>\<open>row["change"][0]\<close> raises \<^verbatim>\<open>IndexError\<close> on an empty list.
\<close>

definition load_row :: "WalRecordsProcessor \<Rightarrow> change_record list \<Rightarrow> exc + WalRecordsProcessor" where
  "load_row p change =
     (case change of
        [] \<Rightarrow> Inl IndexError
      | row # _ \<Rightarrow>
          if cr_table row = VStr ''event_v2_data'' then
            (case from_dict row of
               Inl e \<Rightarrow> Inl e
             | Inr r \<Rightarrow> Inr (p\<lparr>event_v2_data_rows := event_v2_data_rows p @ [r]\<rparr>))
          else if cr_table row = VStr ''transaction'' then
            (case index_record TransactionsRow_get_join_key (transaction_rows p) row of
               Inl e \<Rightarrow> Inl e
             | Inr idx \<Rightarrow> Inr (p\<lparr>transaction_rows := idx\<rparr>))
          else if cr_table row = VStr ''transaction_request'' then
            (case index_record TransactionRequestsRow_get_join_key
                    (transaction_request_rows p) row of
               Inl e \<Rightarrow> Inl e
             | Inr idx \<Rightarrow> Inr (p\<lparr>transaction_request_rows := idx\<rparr>))
          else if cr_table row = VStr ''payment_instrument_token_data'' then
            (case index_record PaymentInstrumentTokenDataRow_get_join_key
                    (payment_instrument_token_data_rows p) row of
               Inl e \<Rightarrow> Inl e
             | Inr idx \<Rightarrow> Inr (p\<lparr>payment_instrument_token_data_rows := idx\<rparr>))
          else Inr (p\<lparr>warnings := warnings p @ [cr_table row]\<rparr>))"

fun load :: "WalRecordsProcessor \<Rightarrow> change_record list list \<Rightarrow> exc + WalRecordsProcessor" where
  "load p [] = Inr p"
| "load p (change # data) =
     (case load_row p change of
        Inl e \<Rightarrow> Inl e
      | Inr p' \<Rightarrow> load p' data)"

text \<open>
  The body of the loop of \<^verbatim>\<open>merge_insertable_rows\<close> for one event row. A row found in
  an index is an object and therefore true, so \<^verbatim>\<open>if transaction_row:\<close> tests for None
  like the two tests after it.
\<close>

definition merge_row :: "WalRecordsProcessor \<Rightarrow> WALRow \<Rightarrow> exc + InsertableRow" where
  "merge_row p event_v2_data_row =
     (let merged_row = EventV2DataRow_get_insertable_values event_v2_data_row
      in case index_get (transaction_rows p)
                (dict_get (column_names_values event_v2_data_row) ''transaction_id'') of
           Inl e \<Rightarrow> Inl e
         | Inr transaction_row \<Rightarrow>
      (let merged_row =
             (case transaction_row of
                None \<Rightarrow> merged_row
              | Some t \<Rightarrow> dict_update merged_row (TransactionsRow_get_insertable_values t))
       in case index_get (transaction_request_rows p)
                 (dict_get (column_names_values event_v2_data_row) ''flow_id'') of
            Inl e \<Rightarrow> Inl e
          | Inr transaction_request_row \<Rightarrow>
      (let merged_row =
             (case transaction_request_row of
                None \<Rightarrow> merged_row
              | Some t \<Rightarrow>
                  dict_update merged_row (TransactionRequestsRow_get_insertable_values t))
       in case (case transaction_request_row of
                  None \<Rightarrow> Inr None
                | Some t \<Rightarrow>
                    index_get (payment_instrument_token_data_rows p)
                      (dict_get (column_names_values t) ''token_id'')) of
            Inl e \<Rightarrow> Inl e
          | Inr payment_instrument_token_data_row \<Rightarrow>
      (let merged_row =
             (case payment_instrument_token_data_row of
                None \<Rightarrow> merged_row
              | Some t \<Rightarrow>
                  dict_update merged_row
                    (PaymentInstrumentTokenDataRow_get_insertable_values t))
       in InsertableRow_init merged_row))))"

fun merge_loop :: "WalRecordsProcessor \<Rightarrow> WALRow list \<Rightarrow> exc + WalRecordsProcessor" where
  "merge_loop p [] = Inr p"
| "merge_loop p (e # es) =
     (case merge_row p e of
        Inl x \<Rightarrow> Inl x
      | Inr r \<Rightarrow> merge_loop (p\<lparr>insertable_rows := insertable_rows p @ [r]\<rparr>) es)"

definition merge_insertable_rows :: "WalRecordsProcessor \<Rightarrow> exc + WalRecordsProcessor" where
  "merge_insertable_rows p = merge_loop p (event_v2_data_rows p)"


text \<open>
  The accumulated dictionary of one event row, given what the three lookups returned:
  each row found updates it with its own values.
\<close>

definition merge_hop :: "(string \<times> pyval) list \<Rightarrow> (string \<times> pyval) list option \<Rightarrow> (string \<times> pyval) list" where
  "merge_hop merged_row found = (case found of None \<Rightarrow> merged_row | Some vs \<Rightarrow> dict_update merged_row vs)"

definition accumulated :: "WALRow \<Rightarrow> WALRow option \<Rightarrow> WALRow option \<Rightarrow> WALRow option \<Rightarrow> (string \<times> pyval) list" where
  "accumulated e tx tr pt =
     merge_hop
       (merge_hop
          (merge_hop (EventV2DataRow_get_insertable_values e)
             (map_option TransactionsRow_get_insertable_values tx))
          (map_option TransactionRequestsRow_get_insertable_values tr))
       (map_option PaymentInstrumentTokenDataRow_get_insertable_values pt)"



section \<open>Example data\<close>

text \<open>
  A change as the capture tool writes it, a row with nothing but its columns, and the rows
  and processor of \<^verbatim>\<open>test_merge_insertable_rows\<close> in \<^verbatim>\<open>unit_test.py\<close>.
\<close>

definition wal_change :: "string \<Rightarrow> string list \<Rightarrow> pyval list \<Rightarrow> change_record" where
  "wal_change tbl names vals =
     \<lparr>cr_kind = VStr ''insert'', cr_schema = VStr ''public'', cr_table = VStr tbl,
      columnnames = names, columntypes = [], columnvalues = vals\<rparr>"

definition test_event :: WALRow where
  "test_event =
     \<lparr>kind = VInt 1, schema = VInt 1, table = VInt 1,
      column_names = [''event_id'', ''flow_id'', ''transaction_id''],
      column_types = [VStr ''int'', VStr ''int'', VStr ''int''],
      column_values = [VInt 1, VInt 2, VInt 2],
      column_names_values =
        [(''event_id'', VInt 1), (''flow_id'', VInt 3), (''transaction_id'', VInt 2)]\<rparr>"

definition test_transaction :: WALRow where
  "test_transaction =
     \<lparr>kind = VInt 2, schema = VInt 2, table = VInt 2,
      column_names = [''transaction_id'', ''transaction_type''],
      column_types = [VStr ''int'', VStr ''str''],
      column_values = [VInt 2, VStr ''sale''],
      column_names_values = [(''transaction_id'', VInt 2), (''transaction_type'', VStr ''sale'')]\<rparr>"

definition test_transaction_request :: WALRow where
  "test_transaction_request =
     \<lparr>kind = VInt 3, schema = VInt 3, table = VInt 3,
      column_names = [''flow_id'', ''vault_options.payment_method'', ''token_id''],
      column_types = [VStr ''int'', VStr ''str'', VStr ''int''],
      column_values = [VInt 2, VStr ''credit_card'', VInt 4],
      column_names_values =
        [(''flow_id'', VInt 2), (''vault_options.payment_method'', VStr ''credit_card''),
         (''token_id'', VInt 4)]\<rparr>"

definition test_payment_instrument_token_data :: WALRow where
  "test_payment_instrument_token_data =
     \<lparr>kind = VInt 4, schema = VInt 4, table = VInt 4,
      column_names = [''token_id'', ''three_d_secure_authentication''],
      column_types = [VStr ''int'', VStr ''str''],
      column_values = [VInt 4, VStr ''authenticated''],
      column_names_values =
        [(''token_id'', VInt 4), (''three_d_secure_authentication'', VStr ''authenticated'')]\<rparr>"

definition test_processor :: WalRecordsProcessor where
  "test_processor =
     \<lparr>event_v2_data_rows = [test_event],
      transaction_rows = [(VInt 2, test_transaction)],
      transaction_request_rows = [(VInt 3, test_transaction_request)],
      payment_instrument_token_data_rows = [(VInt 4, test_payment_instrument_token_data)],
      insertable_rows = [], warnings = []\<rparr>"

definition row_of :: "(string \<times> pyval) list \<Rightarrow> WALRow" where
  "row_of cols =
     \<lparr>kind = VStr ''insert'', schema = VStr ''public'', table = VNone,
      column_names = map fst cols, column_types = [], column_values = map snd cols,
      column_names_values = cols\<rparr>"

text \<open>
  What \<open>transform_to_dict_if_json\<close> leaves in place of a column value: the decoding when
  \<^verbatim>\<open>json.loads\<close> succeeds, the value itself otherwise.
\<close>

definition decode :: "pyval \<Rightarrow> pyval" where
  "decode v = (case json_loads v of Inl e \<Rightarrow> v | Inr r \<Rightarrow> r)"

text \<open>An event and a transaction that both carry \<^verbatim>\<open>created_at\<close>.\<close>

definition created_event :: WALRow where
  "created_event =
     row_of [(''event_id'', VInt 1), (''transaction_id'', VInt 2),
             (''created_at'', VStr ''2023-05-01 10:00:00'')]"

definition created_transaction :: WALRow where
  "created_transaction =
     row_of [(''transaction_id'', VInt 2), (''created_at'', VStr ''2023-04-30 09:00:00'')]"



section \<open>The decoder never raises past the parser\<close>

lemma json_loads_errors: "json_loads v = Inl e \<Longrightarrow> e = JSONDecodeError \<or> e = TypeError"
  by (auto simp: json_loads_def split: pyval.splits option.splits)







section \<open>Dictionaries and extractions\<close>

lemma map_of_dict_update:
  "map_of (dict_update d e) k = (case map_of (rev e) k of None \<Rightarrow> map_of d k | Some v \<Rightarrow> Some v)"
proof (induction e rule: rev_induct)
  case Nil
  show ?case by (simp add: dict_update_def)
next
  case (snoc x xs)
  obtain a b where x: "x = (a, b)" by (cases x)
  from snoc show ?case
    by (simp add: dict_update_def x update_conv')
qed

lemma dict_get_dict_update:
  "dict_get (dict_update d e) k = (case map_of (rev e) k of None \<Rightarrow> dict_get d k | Some v \<Rightarrow> v)"
  by (simp add: dict_get_def map_of_dict_update split: option.splits)

lemma keys_dict_update: "fst ` set (dict_update d e) = fst ` set d \<union> fst ` set e"
proof (induction e rule: rev_induct)
  case Nil
  show ?case by (simp add: dict_update_def)
next
  case (snoc x xs)
  obtain a b where x: "x = (a, b)" by (cases x)
  from snoc show ?case
    by (auto simp: dict_update_def x dom_update)
qed

lemma last_segments:
  "last_segment ''event_id'' = ''event_id''"
  "last_segment ''flow_id'' = ''flow_id''"
  "last_segment ''created_at'' = ''created_at''"
  "last_segment ''transaction_lifecycle_event'' = ''transaction_lifecycle_event''"
  "last_segment ''error_details.decline_reason'' = ''decline_reason''"
  "last_segment ''error_details.decline_type'' = ''decline_type''"
  "last_segment ''transaction_id'' = ''transaction_id''"
  "last_segment ''transaction_type'' = ''transaction_type''"
  "last_segment ''amount'' = ''amount''"
  "last_segment ''currency_code'' = ''currency_code''"
  "last_segment ''processor_merchant_account_id'' = ''processor_merchant_account_id''"
  "last_segment ''vault_options.payment_method'' = ''payment_method''"
  "last_segment ''three_d_secure_authentication'' = ''three_d_secure_authentication''"
  "last_segment ''payment_instrument_type'' = ''payment_instrument_type''"
  "last_segment ''vault_data.customer_id'' = ''customer_id''"
  by code_simp+

lemma EventV2DataRow_values:
  "EventV2DataRow_get_insertable_values r =
     [(''event_id'', dict_get (column_names_values r) ''event_id''),
      (''flow_id'', dict_get (column_names_values r) ''flow_id''),
      (''created_at'', dict_get (column_names_values r) ''created_at''),
      (''transaction_lifecycle_event'',
         dict_get (column_names_values r) ''transaction_lifecycle_event''),
      (''decline_reason'', dict_get (column_names_values r) ''error_details.decline_reason''),
      (''decline_type'', dict_get (column_names_values r) ''error_details.decline_type'')]"
  by (simp add: EventV2DataRow_get_insertable_values_def insertable_values_def last_segments)

lemma TransactionsRow_values:
  "TransactionsRow_get_insertable_values r =
     [(''transaction_id'', dict_get (column_names_values r) ''transaction_id''),
      (''transaction_type'', dict_get (column_names_values r) ''transaction_type''),
      (''created_at'', dict_get (column_names_values r) ''created_at''),
      (''amount'', dict_get (column_names_values r) ''amount''),
      (''currency_code'', dict_get (column_names_values r) ''currency_code''),
      (''processor_merchant_account_id'',
         dict_get (column_names_values r) ''processor_merchant_account_id'')]"
  by (simp add: TransactionsRow_get_insertable_values_def insertable_values_def last_segments)

lemma TransactionRequestsRow_values:
  "TransactionRequestsRow_get_insertable_values r =
     [(''payment_method'', dict_get (column_names_values r) ''vault_options.payment_method'')]"
  by (simp add: TransactionRequestsRow_get_insertable_values_def insertable_values_def
        last_segments)

lemma PaymentInstrumentTokenDataRow_values:
  "PaymentInstrumentTokenDataRow_get_insertable_values r =
     [(''three_d_secure_authentication'',
         dict_get (column_names_values r) ''three_d_secure_authentication''),
      (''payment_instrument_type'', dict_get (column_names_values r) ''payment_instrument_type''),
      (''customer_id'', dict_get (column_names_values r) ''vault_data.customer_id'')]"
  by (simp add: PaymentInstrumentTokenDataRow_get_insertable_values_def insertable_values_def
        last_segments)

section \<open>The join of one event row\<close>

lemma merge_row_accumulated:
  assumes "index_get (transaction_rows p)
             (dict_get (column_names_values e) ''transaction_id'') = Inr tx"
    and "index_get (transaction_request_rows p)
             (dict_get (column_names_values e) ''flow_id'') = Inr tr"
    and "(case tr of
            None \<Rightarrow> Inr None
          | Some t \<Rightarrow>
              index_get (payment_instrument_token_data_rows p)
                (dict_get (column_names_values t) ''token_id'')) = Inr pt"
  shows "merge_row p e = InsertableRow_init (accumulated e tx tr pt)"
  using assms
  by (simp add: merge_row_def accumulated_def merge_hop_def split: option.splits)

lemma dict_get_merge_hop:
  "dict_get (merge_hop m found) k =
     (case found of
        None \<Rightarrow> dict_get m k
      | Some vs \<Rightarrow> (case map_of (rev vs) k of None \<Rightarrow> dict_get m k | Some v \<Rightarrow> v))"
  by (simp add: merge_hop_def dict_get_dict_update split: option.splits)

lemma keys_merge_hop:
  "fst ` set (merge_hop m found) = fst ` set m \<union> (case found of None \<Rightarrow> {} | Some vs \<Rightarrow> fst ` set vs)"
  by (simp add: merge_hop_def keys_dict_update split: option.splits)

lemma accumulated_keys: "fst ` set (accumulated e tx tr pt) \<subseteq> set InsertableRow_fields"
  by (cases tx; cases tr; cases pt)
     (simp_all add: accumulated_def keys_merge_hop EventV2DataRow_values TransactionsRow_values
        TransactionRequestsRow_values PaymentInstrumentTokenDataRow_values
        InsertableRow_fields_def)

lemma InsertableRow_init_accumulated:
  "\<exists>r. InsertableRow_init (accumulated e tx tr pt) = Inr r"
  using accumulated_keys [of e tx tr pt]
  by (auto simp: InsertableRow_init_def list_all_iff)

lemma InsertableRow_init_fields:
  assumes "InsertableRow_init kw = Inr r"
  shows "event_id r = dict_get kw ''event_id''"
    and "flow_id r = dict_get kw ''flow_id''"
    and "created_at r = dict_get kw ''created_at''"
    and "transaction_lifecycle_event r = dict_get kw ''transaction_lifecycle_event''"
    and "decline_reason r = dict_get kw ''decline_reason''"
    and "decline_type r = dict_get kw ''decline_type''"
    and "payment_method r = dict_get kw ''payment_method''"
    and "transaction_id r = dict_get kw ''transaction_id''"
    and "transaction_type r = dict_get kw ''transaction_type''"
    and "amount r = dict_get kw ''amount''"
    and "currency_code r = dict_get kw ''currency_code''"
    and "processor_merchant_account_id r = dict_get kw ''processor_merchant_account_id''"
    and "three_d_secure_authentication r = dict_get kw ''three_d_secure_authentication''"
    and "payment_instrument_type r = dict_get kw ''payment_instrument_type''"
    and "customer_id r = dict_get kw ''customer_id''"
  using assms by (auto simp: InsertableRow_init_def split: if_splits)

lemmas hop_values = EventV2DataRow_values TransactionsRow_values
  TransactionRequestsRow_values PaymentInstrumentTokenDataRow_values

lemma accumulated_pitd_fields:
  "dict_get (accumulated e tx tr pt) ''three_d_secure_authentication'' =
     (case pt of None \<Rightarrow> VNone
      | Some d \<Rightarrow> dict_get (column_names_values d) ''three_d_secure_authentication'')"
  "dict_get (accumulated e tx tr pt) ''payment_instrument_type'' =
     (case pt of None \<Rightarrow> VNone
      | Some d \<Rightarrow> dict_get (column_names_values d) ''payment_instrument_type'')"
  "dict_get (accumulated e tx tr pt) ''customer_id'' =
     (case pt of None \<Rightarrow> VNone
      | Some d \<Rightarrow> dict_get (column_names_values d) ''vault_data.customer_id'')"
  by (cases tx; cases tr; cases pt;
      simp add: accumulated_def dict_get_merge_hop hop_values; simp add: dict_get_def)+


lemma accumulated_transaction_fields:
  "dict_get (accumulated e tx tr pt) ''transaction_id'' =
     (case tx of None \<Rightarrow> VNone | Some t \<Rightarrow> dict_get (column_names_values t) ''transaction_id'')"
  "dict_get (accumulated e tx tr pt) ''transaction_type'' =
     (case tx of None \<Rightarrow> VNone | Some t \<Rightarrow> dict_get (column_names_values t) ''transaction_type'')"
  "dict_get (accumulated e tx tr pt) ''amount'' =
     (case tx of None \<Rightarrow> VNone | Some t \<Rightarrow> dict_get (column_names_values t) ''amount'')"
  "dict_get (accumulated e tx tr pt) ''currency_code'' =
     (case tx of None \<Rightarrow> VNone | Some t \<Rightarrow> dict_get (column_names_values t) ''currency_code'')"
  "dict_get (accumulated e tx tr pt) ''processor_merchant_account_id'' =
     (case tx of None \<Rightarrow> VNone
      | Some t \<Rightarrow> dict_get (column_names_values t) ''processor_merchant_account_id'')"
  "dict_get (accumulated e tx tr pt) ''created_at'' =
     (case tx of None \<Rightarrow> dict_get (column_names_values e) ''created_at''
      | Some t \<Rightarrow> dict_get (column_names_values t) ''created_at'')"
  by (cases tx; cases tr; cases pt;
      simp add: accumulated_def dict_get_merge_hop hop_values; simp add: dict_get_def)+

lemma accumulated_event_fields:
  "dict_get (accumulated e tx tr pt) ''event_id'' = dict_get (column_names_values e) ''event_id''"
  "dict_get (accumulated e tx tr pt) ''flow_id'' = dict_get (column_names_values e) ''flow_id''"
  "dict_get (accumulated e tx tr pt) ''transaction_lifecycle_event'' =
     dict_get (column_names_values e) ''transaction_lifecycle_event''"
  "dict_get (accumulated e tx tr pt) ''decline_reason'' =
     dict_get (column_names_values e) ''error_details.decline_reason''"
  "dict_get (accumulated e tx tr pt) ''decline_type'' =
     dict_get (column_names_values e) ''error_details.decline_type''"
  by (cases tx; cases tr; cases pt;
      simp add: accumulated_def dict_get_merge_hop hop_values; simp add: dict_get_def)+

text \<open>
  C1. The lookup in the PaymentInstrumentTokenData index happens only when the
  TransactionRequest lookup found a row, and its key is that row's own \<^verbatim>\<open>token_id\<close>.
  Whatever the lookups of the first two hops returned, the three fields of the last hop
  come from the row found under that key, and are None when there is none. When no
  TransactionRequest row matches the event's \<^verbatim>\<open>flow_id\<close>, the three fields are None and
  the Output Row is the same for every content of the PaymentInstrumentTokenData index.
\<close>

theorem payment_instrument_hop_follows_request:
  assumes "index_get (transaction_rows p)
             (dict_get (column_names_values e) ''transaction_id'') = Inr tx"
    and "index_get (transaction_request_rows p)
             (dict_get (column_names_values e) ''flow_id'') = Inr tr"
    and "(case tr of
            None \<Rightarrow> Inr None
          | Some t \<Rightarrow>
              index_get (payment_instrument_token_data_rows p)
                (dict_get (column_names_values t) ''token_id'')) = Inr pt"
  shows "\<exists>r. merge_row p e = Inr r \<and>
           three_d_secure_authentication r =
             (case pt of None \<Rightarrow> VNone
              | Some d \<Rightarrow> dict_get (column_names_values d) ''three_d_secure_authentication'') \<and>
           payment_instrument_type r =
             (case pt of None \<Rightarrow> VNone
              | Some d \<Rightarrow> dict_get (column_names_values d) ''payment_instrument_type'') \<and>
           customer_id r =
             (case pt of None \<Rightarrow> VNone
              | Some d \<Rightarrow> dict_get (column_names_values d) ''vault_data.customer_id'') \<and>
           (tr = None \<longrightarrow>
              three_d_secure_authentication r = VNone \<and> payment_instrument_type r = VNone \<and>
              customer_id r = VNone \<and>
              (\<forall>idx. merge_row (p\<lparr>payment_instrument_token_data_rows := idx\<rparr>) e = Inr r))"
proof -
  obtain r where r: "InsertableRow_init (accumulated e tx tr pt) = Inr r"
    using InsertableRow_init_accumulated by blast
  have m: "merge_row p e = Inr r"
    using merge_row_accumulated [OF assms] r by simp
  have f: "three_d_secure_authentication r =
             (case pt of None \<Rightarrow> VNone
              | Some d \<Rightarrow> dict_get (column_names_values d) ''three_d_secure_authentication'')"
      "payment_instrument_type r =
             (case pt of None \<Rightarrow> VNone
              | Some d \<Rightarrow> dict_get (column_names_values d) ''payment_instrument_type'')"
      "customer_id r =
             (case pt of None \<Rightarrow> VNone
              | Some d \<Rightarrow> dict_get (column_names_values d) ''vault_data.customer_id'')"
    using InsertableRow_init_fields [OF r] by (simp_all add: accumulated_pitd_fields)
  have skip: "merge_row (p\<lparr>payment_instrument_token_data_rows := idx\<rparr>) e = Inr r"
    if "tr = None" for idx
  proof -
    from that assms(3) have pt: "pt = None" by simp
    have "merge_row (p\<lparr>payment_instrument_token_data_rows := idx\<rparr>) e =
            InsertableRow_init (accumulated e tx tr pt)"
      using assms(1,2) that pt by (intro merge_row_accumulated) simp_all
    with r show ?thesis by simp
  qed
  from assms(3) have "tr = None \<Longrightarrow> pt = None" by simp
  with m f skip show ?thesis by auto
qed

theorem payment_instrument_hop_follows_request_witness:
  "index_get (transaction_request_rows (test_processor\<lparr>transaction_request_rows := []\<rparr>))
     (dict_get (column_names_values test_event) ''flow_id'') = Inr None \<and>
   (\<exists>r. merge_row (test_processor\<lparr>transaction_request_rows := []\<rparr>) test_event = Inr r \<and>
        three_d_secure_authentication r = VNone \<and> payment_instrument_type r = VNone \<and>
        customer_id r = VNone \<and>
        (\<forall>idx. merge_row
                 (test_processor\<lparr>transaction_request_rows := [],
                    payment_instrument_token_data_rows := idx\<rparr>) test_event = Inr r))"
proof -
  let ?p = "test_processor\<lparr>transaction_request_rows := []\<rparr>"
  have h1: "index_get (transaction_rows ?p)
              (dict_get (column_names_values test_event) ''transaction_id'') =
            Inr (Some test_transaction)"
    by (simp add: test_processor_def test_event_def index_get_def dict_get_def)
  have h2: "index_get (transaction_request_rows ?p)
              (dict_get (column_names_values test_event) ''flow_id'') = Inr None"
    by (simp add: test_processor_def test_event_def index_get_def dict_get_def)
  have h3: "(case None of
               None \<Rightarrow> Inr None
             | Some t \<Rightarrow>
                 index_get (payment_instrument_token_data_rows ?p)
                   (dict_get (column_names_values t) ''token_id'')) = Inr None"
    by simp
  from payment_instrument_hop_follows_request [OF h1 h2 h3] h2 show ?thesis
    by auto
qed

text \<open>
  C5. When the Transaction row found for an event carries a \<^verbatim>\<open>created_at\<close> column,
  the Output Row's \<^verbatim>\<open>created_at\<close> is that row's value, whatever the event's own
  \<^verbatim>\<open>created_at\<close> was: the update of a matched hop overwrites what the accumulator held.
\<close>

theorem transaction_created_at_wins:
  assumes "index_get (transaction_rows p)
             (dict_get (column_names_values e) ''transaction_id'') = Inr (Some t)"
    and "map_of (column_names_values t) ''created_at'' = Some v"
    and "index_get (transaction_request_rows p)
             (dict_get (column_names_values e) ''flow_id'') = Inr tr"
    and "(case tr of
            None \<Rightarrow> Inr None
          | Some q \<Rightarrow>
              index_get (payment_instrument_token_data_rows p)
                (dict_get (column_names_values q) ''token_id'')) = Inr pt"
  shows "\<exists>r. merge_row p e = Inr r \<and> created_at r = v"
proof -
  obtain r where r: "InsertableRow_init (accumulated e (Some t) tr pt) = Inr r"
    using InsertableRow_init_accumulated by blast
  have "merge_row p e = Inr r"
    using merge_row_accumulated [OF assms(1,3,4)] r by simp
  moreover have "created_at r = dict_get (column_names_values t) ''created_at''"
    using InsertableRow_init_fields(3) [OF r] by (simp add: accumulated_transaction_fields)
  with assms(2) have "created_at r = v"
    by (simp add: dict_get_def)
  ultimately show ?thesis by blast
qed


theorem transaction_created_at_wins_witness:
  "map_of (column_names_values created_event) ''created_at'' = Some (VStr ''2023-05-01 10:00:00'') \<and>
   (\<exists>r. merge_row (new_processor\<lparr>transaction_rows := [(VInt 2, created_transaction)]\<rparr>)
          created_event = Inr r \<and>
        created_at r = VStr ''2023-04-30 09:00:00'')"
proof -
  let ?p = "new_processor\<lparr>transaction_rows := [(VInt 2, created_transaction)]\<rparr>"
  have h1: "index_get (transaction_rows ?p)
              (dict_get (column_names_values created_event) ''transaction_id'') =
            Inr (Some created_transaction)"
    by (simp add: created_event_def row_of_def index_get_def dict_get_def)
  have h2: "map_of (column_names_values created_transaction) ''created_at'' =
            Some (VStr ''2023-04-30 09:00:00'')"
    by (simp add: created_transaction_def row_of_def)
  have h3: "index_get (transaction_request_rows ?p)
              (dict_get (column_names_values created_event) ''flow_id'') = Inr None"
    by (simp add: new_processor_def created_event_def row_of_def index_get_def dict_get_def)
  have h4: "(case None of
               None \<Rightarrow> Inr None
             | Some q \<Rightarrow>
                 index_get (payment_instrument_token_data_rows ?p)
                   (dict_get (column_names_values q) ''token_id'')) = Inr None"
    by simp
  have "map_of (column_names_values created_event) ''created_at'' =
          Some (VStr ''2023-05-01 10:00:00'')"
    by (simp add: created_event_def row_of_def)
  then show ?thesis
    using transaction_created_at_wins [OF h1 h2 h3 h4] by (intro conjI)
qed


text \<open>
  C9. When the Transaction hop matches, all six fields of the Transaction extraction are
  written, each with \<^verbatim>\<open>column_names_values.get\<close> of the Transaction row, which is None
  for a column the row lacks. In particular a Transaction row without \<^verbatim>\<open>created_at\<close>
  leaves the Output Row's \<^verbatim>\<open>created_at\<close> None, discarding the event's value.
\<close>

theorem transaction_hop_writes_all_fields:
  assumes "index_get (transaction_rows p)
             (dict_get (column_names_values e) ''transaction_id'') = Inr (Some t)"
    and "index_get (transaction_request_rows p)
             (dict_get (column_names_values e) ''flow_id'') = Inr tr"
    and "(case tr of
            None \<Rightarrow> Inr None
          | Some q \<Rightarrow>
              index_get (payment_instrument_token_data_rows p)
                (dict_get (column_names_values q) ''token_id'')) = Inr pt"
  shows "\<exists>r. merge_row p e = Inr r \<and>
           transaction_id r = dict_get (column_names_values t) ''transaction_id'' \<and>
           transaction_type r = dict_get (column_names_values t) ''transaction_type'' \<and>
           created_at r = dict_get (column_names_values t) ''created_at'' \<and>
           amount r = dict_get (column_names_values t) ''amount'' \<and>
           currency_code r = dict_get (column_names_values t) ''currency_code'' \<and>
           processor_merchant_account_id r =
             dict_get (column_names_values t) ''processor_merchant_account_id'' \<and>
           (map_of (column_names_values t) ''created_at'' = None \<longrightarrow> created_at r = VNone)"
proof -
  obtain r where r: "InsertableRow_init (accumulated e (Some t) tr pt) = Inr r"
    using InsertableRow_init_accumulated by blast
  note f = InsertableRow_init_fields [OF r]
  have m: "merge_row p e = Inr r"
    using merge_row_accumulated [OF assms] r by simp
  have c: "created_at r = dict_get (column_names_values t) ''created_at''"
    using f(3) by (simp add: accumulated_transaction_fields)
  show ?thesis
  proof (intro exI [of _ r] conjI impI)
    show "merge_row p e = Inr r" by (rule m)
    show "transaction_id r = dict_get (column_names_values t) ''transaction_id''"
      using f(8) by (simp add: accumulated_transaction_fields)
    show "transaction_type r = dict_get (column_names_values t) ''transaction_type''"
      using f(9) by (simp add: accumulated_transaction_fields)
    show "created_at r = dict_get (column_names_values t) ''created_at''" by (rule c)
    show "amount r = dict_get (column_names_values t) ''amount''"
      using f(10) by (simp add: accumulated_transaction_fields)
    show "currency_code r = dict_get (column_names_values t) ''currency_code''"
      using f(11) by (simp add: accumulated_transaction_fields)
    show "processor_merchant_account_id r =
            dict_get (column_names_values t) ''processor_merchant_account_id''"
      using f(12) by (simp add: accumulated_transaction_fields)
    show "created_at r = VNone" if "map_of (column_names_values t) ''created_at'' = None"
      using c that by (simp add: dict_get_def)
  qed
qed

theorem transaction_hop_writes_all_fields_witness:
  "map_of (column_names_values created_event) ''created_at'' = Some (VStr ''2023-05-01 10:00:00'') \<and>
   map_of (column_names_values test_transaction) ''created_at'' = None \<and>
   (\<exists>r. merge_row (new_processor\<lparr>transaction_rows := [(VInt 2, test_transaction)]\<rparr>)
          created_event = Inr r \<and>
        created_at r = VNone \<and> amount r = VNone \<and> transaction_type r = VStr ''sale'')"
proof -
  let ?p = "new_processor\<lparr>transaction_rows := [(VInt 2, test_transaction)]\<rparr>"
  have h1: "index_get (transaction_rows ?p)
              (dict_get (column_names_values created_event) ''transaction_id'') =
            Inr (Some test_transaction)"
    by (simp add: created_event_def row_of_def index_get_def dict_get_def)
  have h2: "index_get (transaction_request_rows ?p)
              (dict_get (column_names_values created_event) ''flow_id'') = Inr None"
    by (simp add: new_processor_def created_event_def row_of_def index_get_def dict_get_def)
  have h3: "(case None of
               None \<Rightarrow> Inr None
             | Some q \<Rightarrow>
                 index_get (payment_instrument_token_data_rows ?p)
                   (dict_get (column_names_values q) ''token_id'')) = Inr None"
    by simp
  have e: "map_of (column_names_values created_event) ''created_at'' =
          Some (VStr ''2023-05-01 10:00:00'')"
    by (simp add: created_event_def row_of_def)
  have t: "map_of (column_names_values test_transaction) ''created_at'' = None"
      "dict_get (column_names_values test_transaction) ''amount'' = VNone"
      "dict_get (column_names_values test_transaction) ''transaction_type'' = VStr ''sale''"
    by (simp_all add: test_transaction_def dict_get_def)
  from transaction_hop_writes_all_fields [OF h1 h2 h3] obtain r where
    m: "merge_row ?p created_event = Inr r"
    and c: "map_of (column_names_values test_transaction) ''created_at'' = None
              \<longrightarrow> created_at r = VNone"
    and a: "amount r = dict_get (column_names_values test_transaction) ''amount''"
    and ty: "transaction_type r =
               dict_get (column_names_values test_transaction) ''transaction_type''"
    by (elim exE conjE)
  from c t(1) have c': "created_at r = VNone" by (rule mp)
  from a t(2) have a': "amount r = VNone" by simp
  from ty t(3) have ty': "transaction_type r = VStr ''sale''" by simp
  show ?thesis
    by (intro conjI exI [of _ r]) (rule e t(1) m c' a' ty')+
qed







section \<open>The join phase\<close>







text \<open>The scenario of \<^verbatim>\<open>test_merge_insertable_rows\<close>, with the row the test expects.\<close>

lemma test_merge_insertable_rows:
  "merge_insertable_rows test_processor =
     Inr (test_processor\<lparr>insertable_rows :=
       [\<lparr>event_id = VInt 1, flow_id = VInt 3, created_at = VNone,
         transaction_lifecycle_event = VNone, decline_reason = VNone,
         decline_type = VNone, payment_method = VStr ''credit_card'',
         transaction_id = VInt 2, transaction_type = VStr ''sale'',
         amount = VNone, currency_code = VNone,
         processor_merchant_account_id = VNone,
         three_d_secure_authentication = VStr ''authenticated'',
         payment_instrument_type = VNone, customer_id = VNone\<rparr>]\<rparr>)"
  by code_simp





section \<open>Parsing a change record\<close>

lemma transform_decode: "transform_to_dict_if_json v = Inr (decode v)"
  by (auto simp: transform_to_dict_if_json_def decode_def split: sum.splits
        dest: json_loads_errors)

lemma map_exc_transform: "map_exc transform_to_dict_if_json vs = Inr (map decode vs)"
  by (induction vs) (simp_all add: transform_decode)

lemma from_dict_total:
  "from_dict data =
     Inr \<lparr>kind = cr_kind data, schema = cr_schema data, table = cr_table data,
          column_names = columnnames data, column_types = columntypes data,
          column_values = columnvalues data,
          column_names_values =
            dict_of_pairs (zip (columnnames data) (map decode (columnvalues data)))\<rparr>"
  by (simp add: from_dict_def map_exc_transform)




section \<open>Join keys\<close>

lemma list_index_None: "list_index xs x = None \<longleftrightarrow> x \<notin> set xs"
  by (induction xs) auto

lemma list_index_Some:
  "list_index xs x = Some i \<longleftrightarrow> i < length xs \<and> xs ! i = x \<and> (\<forall>j<i. xs ! j \<noteq> x)"
proof (induction xs arbitrary: i)
  case Nil
  show ?case by simp
next
  case (Cons y ys)
  show ?case
  proof (cases "y = x")
    case True
    then show ?thesis by (cases i) auto
  next
    case False
    show ?thesis
    proof (cases i)
      case 0
      with False show ?thesis by auto
    next
      case (Suc k)
      have "(\<forall>j<Suc k. (y # ys) ! j \<noteq> x) \<longleftrightarrow> (\<forall>j<k. ys ! j \<noteq> x)"
        using False by (auto simp: less_Suc_eq_0_disj)
      with False Suc Cons.IH [of k] show ?thesis by auto
    qed
  qed
qed

lemma get_join_key_Inr:
  "get_join_key col r = Inr v \<longleftrightarrow>
     (\<exists>i. list_index (column_names r) col = Some i \<and> i < length (column_values r) \<and>
          v = column_values r ! i)"
  by (auto simp: get_join_key_def split: option.splits)

lemma get_join_key_absent:
  "col \<notin> set (column_names r) \<Longrightarrow> get_join_key col r = Inl ValueError"
  by (simp add: get_join_key_def list_index_None [THEN iffD2])

lemma index_record_absent:
  "col \<notin> set (columnnames row) \<Longrightarrow> index_record (get_join_key col) idx row = Inl ValueError"
  by (simp add: index_record_def from_dict_total get_join_key_absent)

lemma load_row_absent:
  assumes "(col, tbl) \<in> {(''transaction_id'', ''transaction''), (''flow_id'', ''transaction_request''),
             (''token_id'', ''payment_instrument_token_data'')}"
    and "cr_table row = VStr tbl"
    and "col \<notin> set (columnnames row)"
  shows "load_row p (row # rest) = Inl ValueError"
  using assms
  by (auto simp: load_row_def index_record_absent TransactionsRow_get_join_key_def
        TransactionRequestsRow_get_join_key_def PaymentInstrumentTokenDataRow_get_join_key_def)

lemma load_fails:
  "change \<in> set data \<Longrightarrow> (\<And>q. \<exists>x. load_row q change = Inl x) \<Longrightarrow> \<exists>x. load p data = Inl x"
proof (induction data arbitrary: p)
  case Nil
  then show ?case by simp
next
  case (Cons c data)
  show ?case
  proof (cases "load_row p c")
    case (Inl x)
    then show ?thesis by simp
  next
    case (Inr p')
    with Cons.prems(1) Cons.prems(2) [of p] have "change \<in> set data"
      by auto
    from Cons.IH [OF this Cons.prems(2)] Inr show ?thesis by simp
  qed
qed

text \<open>
  C10, as the code has it. For a Transaction, TransactionRequest or
  PaymentInstrumentTokenData row, the join key is computed exactly when \<^verbatim>\<open>column_names\<close>
  contains the key column of the variant and \<^verbatim>\<open>column_values\<close> has an element at the
  position of its first occurrence; the result is that element. When the column is
  absent the computation raises \<^verbatim>\<open>ValueError\<close>, and a batch that holds such a record
  of the variant's table makes the whole load fail instead of skipping the record.
\<close>

theorem join_key_needs_its_column:
  assumes "(join_key, col, tbl) \<in>
             {(TransactionsRow_get_join_key, ''transaction_id'', ''transaction''),
              (TransactionRequestsRow_get_join_key, ''flow_id'', ''transaction_request''),
              (PaymentInstrumentTokenDataRow_get_join_key, ''token_id'',
                 ''payment_instrument_token_data'')}"
  shows "(join_key r = Inr v \<longleftrightarrow>
            (\<exists>i. i < length (column_names r) \<and> column_names r ! i = col \<and>
                 (\<forall>j<i. column_names r ! j \<noteq> col) \<and>
                 i < length (column_values r) \<and> v = column_values r ! i)) \<and>
         (col \<notin> set (column_names r) \<longrightarrow> join_key r = Inl ValueError) \<and>
         (col \<notin> set (columnnames row) \<and> cr_table row = VStr tbl \<and> row # rest \<in> set data
            \<longrightarrow> (\<exists>x. load p data = Inl x))"
proof -
  from assms have jk: "join_key = get_join_key col"
    by (auto simp: TransactionsRow_get_join_key_def TransactionRequestsRow_get_join_key_def
          PaymentInstrumentTokenDataRow_get_join_key_def)
  from assms have ct: "(col, tbl) \<in> {(''transaction_id'', ''transaction''),
        (''flow_id'', ''transaction_request''), (''token_id'', ''payment_instrument_token_data'')}"
    by auto
  have a: "join_key r = Inr v \<longleftrightarrow>
            (\<exists>i. i < length (column_names r) \<and> column_names r ! i = col \<and>
                 (\<forall>j<i. column_names r ! j \<noteq> col) \<and>
                 i < length (column_values r) \<and> v = column_values r ! i)"
    unfolding jk get_join_key_Inr list_index_Some by blast
  have b: "col \<notin> set (column_names r) \<longrightarrow> join_key r = Inl ValueError"
    unfolding jk by (simp add: get_join_key_absent)
  have c: "\<exists>x. load p data = Inl x"
    if "col \<notin> set (columnnames row) \<and> cr_table row = VStr tbl \<and> row # rest \<in> set data"
  proof (rule load_fails [of "row # rest"])
    from that show "row # rest \<in> set data" by simp
    show "\<exists>x. load_row q (row # rest) = Inl x" for q
      using load_row_absent [OF ct, of row q rest] that by blast
  qed
  from a b c show ?thesis by blast
qed

theorem join_key_needs_its_column_witness:
  "''transaction_id'' \<notin> set (columnnames (wal_change ''transaction'' [''transaction_type''] [VStr ''sale''])) \<and>
   (\<exists>x. load new_processor
          [[wal_change ''event_v2_data'' [''event_id''] [VInt 1]],
           [wal_change ''transaction'' [''transaction_type''] [VStr ''sale'']]] = Inl x) \<and>
   TransactionsRow_get_join_key test_transaction = Inr (VInt 2)"
proof -
  let ?row = "wal_change ''transaction'' [''transaction_type''] [VStr ''sale'']"
  let ?data = "[[wal_change ''event_v2_data'' [''event_id''] [VInt 1]], [?row]]"
  have m: "(TransactionsRow_get_join_key, ''transaction_id'', ''transaction'') \<in>
             {(TransactionsRow_get_join_key, ''transaction_id'', ''transaction''),
              (TransactionRequestsRow_get_join_key, ''flow_id'', ''transaction_request''),
              (PaymentInstrumentTokenDataRow_get_join_key, ''token_id'',
                 ''payment_instrument_token_data'')}"
    by simp
  note t = join_key_needs_its_column [OF m, of test_transaction "VInt 2" ?row "[]" ?data new_processor]
  have h: "''transaction_id'' \<notin> set (columnnames ?row)" "cr_table ?row = VStr ''transaction''"
      "?row # [] \<in> set ?data"
    by (simp_all add: wal_change_def)
  from t h have l: "\<exists>x. load new_processor ?data = Inl x" by blast
  have "\<exists>i. i < length (column_names test_transaction) \<and>
            column_names test_transaction ! i = ''transaction_id'' \<and>
            (\<forall>j<i. column_names test_transaction ! j \<noteq> ''transaction_id'') \<and>
            i < length (column_values test_transaction) \<and>
            VInt 2 = column_values test_transaction ! i"
    by (rule exI [of _ 0]) (simp add: test_transaction_def)
  with t have k: "TransactionsRow_get_join_key test_transaction = Inr (VInt 2)" by blast
  from h(1) l k show ?thesis by (intro conjI)
qed

text \<open>
  C10 as stated fails: the record below has the key column, but its values end before the
  column's position, and the join key raises \<^verbatim>\<open>IndexError\<close>.
\<close>

theorem join_key_short_values_counterexample:
  "load new_processor
     [[wal_change ''transaction'' [''transaction_type'', ''transaction_id''] [VStr ''sale'']]] =
   Inl IndexError"
  by code_simp

section \<open>The build phase\<close>
















end
